theory Spec2Isabelle
  imports
    Complex_Main
    "HOL-Library.Sublist"
    "HOL-Library.Option_ord"
    "HOL-Library.Product_Lexorder"
begin

section \<open>Camel Care: the persisted rows\<close>

text \<open>
  The application (\<^verbatim>\<open>app.py\<close>) keeps five tables. A row is a record; a column that the
  schema leaves nullable is an \<open>option\<close> (\<open>None\<close> is SQL \<open>NULL\<close>). Primary keys are the
  positive integers SQLite hands out. A \<^verbatim>\<open>DateTime\<close> is the tuple (year, month, day, hour,
  minute, second, microsecond); the lexicographic order on it is the chronological one, and
  \<open>None < Some x\<close> on options is SQLite's rule that \<open>NULL\<close> sorts before every value.
\<close>

type_synonym datetime = "nat \<times> nat \<times> nat \<times> nat \<times> nat \<times> nat \<times> nat"

datatype RoleEnum = FARMER | PRODUCER | CONSUMER | RESEARCHER | VET | TRANSPORTER | ENTREPRENEUR | GOV

fun role_value :: "RoleEnum \<Rightarrow> string" where
  "role_value FARMER = ''farmer''"
| "role_value PRODUCER = ''producer''"
| "role_value CONSUMER = ''consumer''"
| "role_value RESEARCHER = ''researcher''"
| "role_value VET = ''vet''"
| "role_value TRANSPORTER = ''transporter''"
| "role_value ENTREPRENEUR = ''entrepreneur''"
| "role_value GOV = ''gov''"

record user =
  user_id :: nat
  user_username :: string
  user_email :: string
  user_password_hash :: string
  user_role :: string
  user_created_at :: "datetime option"

record profile =
  profile_id :: nat
  profile_user_id :: "nat option"
  profile_full_name :: "string option"
  profile_phone :: "string option"
  profile_location :: "string option"
  profile_bio :: "string option"

record listing =
  listing_id :: nat
  listing_title :: string
  listing_description :: "string option"
  listing_owner_id :: "nat option"
  listing_category :: "string option"
  listing_price :: "real option"
  listing_quantity :: "string option"
  listing_location :: "string option"
  listing_created_at :: "datetime option"

record message =
  message_id :: nat
  message_sender_id :: "nat option"
  message_receiver_id :: "nat option"
  message_subject :: "string option"
  message_body :: "string option"
  message_created_at :: "datetime option"

record event =
  event_id :: nat
  event_title :: "string option"
  event_description :: "string option"
  event_date :: "datetime option"
  event_organizer_id :: "nat option"
  event_created_at :: "datetime option"

text \<open>The persisted state: the five tables, each in insertion order.\<close>

record db =
  users :: "user list"
  profiles :: "profile list"
  listings :: "listing list"
  messages :: "message list"
  events :: "event list"

section \<open>Responses\<close>

datatype json =
    JNull
  | JStr string
  | JInt int
  | JNum real
  | JArr "json list"
  | JObj "(string \<times> json) list"

text \<open>
  What a handler returns: a rendered template (the index page with its context, a form page
  by its template name), a redirect to an endpoint, a JSON payload, the 404 of
  \<^verbatim>\<open>get_or_404\<close>, or the 500 of an uncaught exception.
\<close>

datatype response =
    RenderIndex "listing list" "event list" string string
  | RenderTemplate string
  | Redirect string
  | Jsonify json
  | NotFound
  | ServerError

section \<open>Queries\<close>

text \<open>
  \<^verbatim>\<open>Column.contains(q)\<close> is the SQL \<^verbatim>\<open>column LIKE '%' || q || '%'\<close>. In SQLite's \<^verbatim>\<open>LIKE\<close> the
  pattern character \<^verbatim>\<open>%\<close> matches any run of characters, \<^verbatim>\<open>_\<close> matches any one character,
  every other character matches itself, upper and lower case of the 26 ASCII letters being
  the same. Nothing escapes the wildcards of \<open>q\<close>.
\<close>

definition lower :: "char \<Rightarrow> char" where
  "lower c = (let n = (of_char c :: nat) in if 65 \<le> n \<and> n \<le> 90 then char_of (n + 32) else c)"

fun like :: "string \<Rightarrow> string \<Rightarrow> bool" where
  "like [] s = (s = [])"
| "like (p # ps) s =
     (if p = CHR ''%'' then
        like ps s \<or> (case s of [] \<Rightarrow> False | c # t \<Rightarrow> like (p # ps) t)
      else
        (case s of [] \<Rightarrow> False
         | c # t \<Rightarrow> (p = CHR ''_'' \<or> lower p = lower c) \<and> like ps t))"

text \<open>A \<open>NULL\<close> column makes the comparison \<open>NULL\<close>, and a row whose condition is not true is
  not selected.\<close>

definition contains :: "string option \<Rightarrow> string \<Rightarrow> bool" where
  "contains col q = (case col of None \<Rightarrow> False | Some s \<Rightarrow> like (CHR ''%'' # q @ ''%'') s)"

text \<open>
  \<^verbatim>\<open>order_by\<close> and \<^verbatim>\<open>limit\<close>. SQL leaves the order among rows with equal keys open; the
  model takes the one of a stable sort of the table, reversed for \<^verbatim>\<open>desc()\<close>.
\<close>

definition order_by_desc :: "('a \<Rightarrow> 'k::linorder) \<Rightarrow> 'a list \<Rightarrow> 'a list" where
  "order_by_desc f xs = rev (sort_key f xs)"

definition order_by_asc :: "('a \<Rightarrow> 'k::linorder) \<Rightarrow> 'a list \<Rightarrow> 'a list" where
  "order_by_asc f xs = sort_key f xs"

definition limit :: "nat \<Rightarrow> 'a list \<Rightarrow> 'a list" where
  "limit n xs = take n xs"

text \<open>\<^verbatim>\<open>request.args.get(key, "")\<close>\<close>

definition args_get :: "(string \<rightharpoonup> string) \<Rightarrow> string \<Rightarrow> string \<Rightarrow> string" where
  "args_get args k d = (case args k of None \<Rightarrow> d | Some v \<Rightarrow> v)"

section \<open>Browsing: \<^verbatim>\<open>index\<close> and \<^verbatim>\<open>api_listings\<close>\<close>

definition index :: "db \<Rightarrow> (string \<rightharpoonup> string) \<Rightarrow> response" where
  "index st args =
     (let q = args_get args ''q'' '''';
          cat = args_get args ''cat'' '''';
          ls = listings st;
          ls = (if q \<noteq> [] then
                  filter (\<lambda>l. contains (Some (listing_title l)) q \<or> contains (listing_description l) q) ls
                else ls);
          ls = (if cat \<noteq> [] then filter (\<lambda>l. listing_category l = Some cat) ls else ls);
          ls = limit 30 (order_by_desc listing_created_at ls);
          es = limit 10 (order_by_asc event_date (events st))
      in RenderIndex ls es q cat)"

text \<open>\<^verbatim>\<open>l.owner\<close>: the user the listing's \<^verbatim>\<open>owner_id\<close> points to, if there is one.\<close>

definition listing_owner :: "db \<Rightarrow> listing \<Rightarrow> user option" where
  "listing_owner st l =
     (case listing_owner_id l of None \<Rightarrow> None
      | Some i \<Rightarrow> find (\<lambda>u. user_id u = i) (users st))"

definition jstr_opt :: "string option \<Rightarrow> json" where
  "jstr_opt s = (case s of None \<Rightarrow> JNull | Some v \<Rightarrow> JStr v)"

definition jnum_opt :: "real option \<Rightarrow> json" where
  "jnum_opt x = (case x of None \<Rightarrow> JNull | Some v \<Rightarrow> JNum v)"

definition listing_dict :: "listing \<Rightarrow> user \<Rightarrow> json" where
  "listing_dict l ow = JObj
     [(''id'', JInt (int (listing_id l))), (''title'', JStr (listing_title l)),
      (''description'', jstr_opt (listing_description l)),
      (''category'', jstr_opt (listing_category l)), (''price'', jnum_opt (listing_price l)),
      (''quantity'', jstr_opt (listing_quantity l)),
      (''location'', jstr_opt (listing_location l)),
      (''owner'', JObj [(''id'', JInt (int (user_id ow))), (''username'', JStr (user_username ow))])]"

text \<open>The loop of \<^verbatim>\<open>api_listings\<close>. A listing without an owner makes \<^verbatim>\<open>l.owner.id\<close> raise
  \<^verbatim>\<open>AttributeError\<close>, which ends the request: \<open>None\<close>.\<close>

fun append_results :: "db \<Rightarrow> listing list \<Rightarrow> json list \<Rightarrow> json list option" where
  "append_results st [] results = Some results"
| "append_results st (l # ls) results =
     (case listing_owner st l of None \<Rightarrow> None
      | Some ow \<Rightarrow> append_results st ls (results @ [listing_dict l ow]))"

definition api_listings_query :: "db \<Rightarrow> (string \<rightharpoonup> string) \<Rightarrow> listing list" where
  "api_listings_query st args =
     (let q = args_get args ''q'' '''';
          cat = args_get args ''category'' '''';
          qry = listings st;
          qry = (if q \<noteq> [] then
                   filter (\<lambda>l. contains (Some (listing_title l)) q \<or> contains (listing_description l) q) qry
                 else qry);
          qry = (if cat \<noteq> [] then filter (\<lambda>l. listing_category l = Some cat) qry else qry)
      in limit 200 (order_by_desc listing_created_at qry))"

definition api_listings :: "db \<Rightarrow> (string \<rightharpoonup> string) \<Rightarrow> response" where
  "api_listings st args =
     (case append_results st (api_listings_query st args) [] of
        None \<Rightarrow> ServerError
      | Some results \<Rightarrow> Jsonify (JArr results))"

section \<open>Requests, the session and the environment\<close>

datatype http_method = GET | POST

text \<open>
  A request carries its method, whether the CSRF token that \<^verbatim>\<open>FlaskForm\<close> checks is good, and
  the user id kept in the session cookie, if any. The environment gives what the handlers
  read from outside: the clock (\<^verbatim>\<open>datetime.utcnow\<close>, the default of every \<^verbatim>\<open>created_at\<close>),
  passlib's \<^verbatim>\<open>bcrypt.hash\<close> (salted, so a different function on every call; it is taken to
  return) and \<^verbatim>\<open>bcrypt.verify\<close>, and the \<^verbatim>\<open>Email()\<close> validator of WTForms. None of the three
  is part of the application; the handlers are verified for every choice of them.
\<close>

record request =
  req_method :: http_method
  req_csrf_ok :: bool
  req_session_user_id :: "nat option"

record env =
  utcnow :: datetime
  bcrypt_hash :: "string \<Rightarrow> string"
  bcrypt_verify :: "string \<Rightarrow> string \<Rightarrow> bool"
  email_validator :: "string \<Rightarrow> bool"

text \<open>A handler's outcome: the response, the messages it flashed (text, category) and the
  persisted state after it.\<close>

type_synonym outcome = "response \<times> (string \<times> string) list \<times> db"

text \<open>\<^verbatim>\<open>load_user\<close> and Flask-Login's \<^verbatim>\<open>current_user\<close>: the row of the session's user id.\<close>

definition load_user :: "db \<Rightarrow> nat \<Rightarrow> user option" where
  "load_user st uid = find (\<lambda>u. user_id u = uid) (users st)"

definition current_user :: "db \<Rightarrow> request \<Rightarrow> user option" where
  "current_user st req =
     (case req_session_user_id req of None \<Rightarrow> None | Some uid \<Rightarrow> load_user st uid)"

text \<open>\<^verbatim>\<open>@login_required\<close>: without an identity the handler does not run; Flask-Login flashes
  its message and redirects to the login view.\<close>

definition login_required :: "db \<Rightarrow> request \<Rightarrow> (user \<Rightarrow> outcome) \<Rightarrow> outcome" where
  "login_required st req handler =
     (case current_user st req of
        None \<Rightarrow> (Redirect ''login'', [(''Please log in to access this page.'', ''message'')], st)
      | Some cu \<Rightarrow> handler cu)"

text \<open>The integer primary key SQLite gives a new row: one more than the largest in the
  table.\<close>

definition next_id :: "nat list \<Rightarrow> nat" where
  "next_id ids = Suc (fold max ids 0)"

section \<open>Forms\<close>

text \<open>
  A \<^verbatim>\<open>StringField\<close> or \<^verbatim>\<open>SelectField\<close> holds the submitted text, \<open>None\<close> when the field was not
  submitted. \<^verbatim>\<open>InputRequired\<close> wants it submitted and non-empty; \<^verbatim>\<open>Length(min, max)\<close> bounds
  its length, counting a missing value as 0.
\<close>

definition InputRequired :: "string option \<Rightarrow> bool" where
  "InputRequired d = (case d of None \<Rightarrow> False | Some v \<Rightarrow> v \<noteq> [])"

definition Length :: "nat \<Rightarrow> nat \<Rightarrow> string option \<Rightarrow> bool" where
  "Length mn mx d =
     (let n = (case d of None \<Rightarrow> 0 | Some v \<Rightarrow> length v) in mn \<le> n \<and> n \<le> mx)"

definition valid_choice :: "string list \<Rightarrow> string option \<Rightarrow> bool" where
  "valid_choice choices d = (case d of None \<Rightarrow> False | Some v \<Rightarrow> v \<in> set choices)"

text \<open>\<^verbatim>\<open>form.validate_on_submit()\<close>: the request is a submission, and the CSRF token and every
  field validate.\<close>

definition validate_on_submit :: "request \<Rightarrow> bool \<Rightarrow> bool" where
  "validate_on_submit req fields_ok = (req_method req = POST \<and> req_csrf_ok req \<and> fields_ok)"

text \<open>
  A \<^verbatim>\<open>FloatField\<close>: nothing submitted (data \<open>None\<close>, no error), text that \<^verbatim>\<open>float()\<close> rejects
  (data \<open>None\<close>, and the form does not validate), or a float. A float is the real number it
  denotes, so \<open>-0.0\<close> is \<open>0\<close>; infinities and NaN are left out.
\<close>

datatype FloatField = NoInput | NotAFloat | FloatValue real

fun float_data :: "FloatField \<Rightarrow> real option" where
  "float_data (FloatValue x) = Some x"
| "float_data _ = None"

fun float_ok :: "FloatField \<Rightarrow> bool" where
  "float_ok NotAFloat = False"
| "float_ok _ = True"

record RegisterForm =
  reg_username :: "string option"
  reg_email :: "string option"
  reg_password :: "string option"
  reg_role :: "string option"

definition role_choices :: "string list" where
  "role_choices = map role_value
     [FARMER, PRODUCER, CONSUMER, RESEARCHER, VET, TRANSPORTER, ENTREPRENEUR, GOV]"

definition Email :: "env \<Rightarrow> string option \<Rightarrow> bool" where
  "Email e d = (case d of None \<Rightarrow> False | Some v \<Rightarrow> email_validator e v)"

definition RegisterForm_validate :: "env \<Rightarrow> RegisterForm \<Rightarrow> bool" where
  "RegisterForm_validate e form =
     (InputRequired (reg_username form) \<and> Length 3 80 (reg_username form) \<and>
      InputRequired (reg_email form) \<and> Email e (reg_email form) \<and>
      InputRequired (reg_password form) \<and> Length 6 128 (reg_password form) \<and>
      valid_choice role_choices (reg_role form))"

record ListingForm =
  lst_title :: "string option"
  lst_description :: "string option"
  lst_category :: "string option"
  lst_price :: FloatField
  lst_quantity :: "string option"
  lst_location :: "string option"

definition category_choices :: "string list" where
  "category_choices = [''milk'', ''transport'', ''vet'', ''research'', ''other'']"

definition ListingForm_validate :: "ListingForm \<Rightarrow> bool" where
  "ListingForm_validate form =
     (InputRequired (lst_title form) \<and> Length 2 200 (lst_title form) \<and>
      InputRequired (lst_description form) \<and> Length 10 2000 (lst_description form) \<and>
      valid_choice category_choices (lst_category form) \<and>
      float_ok (lst_price form))"

record MessageForm =
  msg_receiver :: "string option"
  msg_subject :: "string option"
  msg_body :: "string option"

definition MessageForm_validate :: "MessageForm \<Rightarrow> bool" where
  "MessageForm_validate form =
     (InputRequired (msg_receiver form) \<and>
      InputRequired (msg_subject form) \<and> Length 1 200 (msg_subject form) \<and>
      InputRequired (msg_body form) \<and> Length 1 2000 (msg_body form))"



section \<open>Registration\<close>

definition set_password :: "env \<Rightarrow> user \<Rightarrow> string \<Rightarrow> user" where
  "set_password e u password = u\<lparr>user_password_hash := bcrypt_hash e password\<rparr>"

definition check_password :: "env \<Rightarrow> user \<Rightarrow> string \<Rightarrow> bool" where
  "check_password e u password = bcrypt_verify e password (user_password_hash u)"

text \<open>
  \<^verbatim>\<open>register\<close>. The new \<^verbatim>\<open>User\<close> has no hash until \<^verbatim>\<open>set_password\<close> (the empty string stands
  for the unset attribute); the first commit gives it its id and its \<^verbatim>\<open>created_at\<close>, the
  second stores the empty profile. Field data that is \<open>None\<close> cannot pass validation; were
  it to reach the constructor, the \<^verbatim>\<open>NOT NULL\<close> columns would refuse the commit.
\<close>

definition register :: "env \<Rightarrow> db \<Rightarrow> request \<Rightarrow> RegisterForm \<Rightarrow> outcome" where
  "register e st req form =
     (if validate_on_submit req (RegisterForm_validate e form) then
        (case (reg_username form, reg_email form, reg_password form, reg_role form) of
           (Some username, Some email, Some password, Some role) \<Rightarrow>
             if find (\<lambda>u. user_username u = username \<or> user_email u = email) (users st) \<noteq> None
             then (Redirect ''register'', [(''Username or email already exists'', ''danger'')], st)
             else
               let u = \<lparr>user_id = next_id (map user_id (users st)), user_username = username,
                        user_email = email, user_password_hash = '''', user_role = role,
                        user_created_at = Some (utcnow e)\<rparr>;
                   u = set_password e u password;
                   st = st\<lparr>users := users st @ [u]\<rparr>;
                   prof = \<lparr>profile_id = next_id (map profile_id (profiles st)),
                           profile_user_id = Some (user_id u), profile_full_name = Some '''',
                           profile_phone = Some '''', profile_location = Some '''',
                           profile_bio = Some ''''\<rparr>;
                   st = st\<lparr>profiles := profiles st @ [prof]\<rparr>
               in (Redirect ''login'', [(''Account created. Please log in.'', ''success'')], st)
         | _ \<Rightarrow> (ServerError, [], st))
      else (RenderTemplate ''register.html'', [], st))"

section \<open>Creating listings, messages and events\<close>

text \<open>Python's \<^verbatim>\<open>x or None\<close> on an optional float: \<open>None\<close> and \<open>0.0\<close> are falsy.\<close>

definition or_None :: "real option \<Rightarrow> real option" where
  "or_None x = (case x of None \<Rightarrow> None | Some v \<Rightarrow> if v = 0 then None else Some v)"

definition new_listing :: "env \<Rightarrow> db \<Rightarrow> request \<Rightarrow> ListingForm \<Rightarrow> outcome" where
  "new_listing e st req form = login_required st req (\<lambda>cu.
     if validate_on_submit req (ListingForm_validate form) then
       (case lst_title form of
          Some title \<Rightarrow>
            let l = \<lparr>listing_id = next_id (map listing_id (listings st)),
                     listing_title = title,
                     listing_description = lst_description form,
                     listing_owner_id = Some (user_id cu),
                     listing_category = lst_category form,
                     listing_price = or_None (float_data (lst_price form)),
                     listing_quantity = lst_quantity form,
                     listing_location = lst_location form,
                     listing_created_at = Some (utcnow e)\<rparr>
            in (Redirect ''dashboard'', [(''Listing created.'', ''success'')],
                st\<lparr>listings := listings st @ [l]\<rparr>)
        | None \<Rightarrow> (ServerError, [], st))
     else (RenderTemplate ''new_listing.html'', [], st))"

definition new_message :: "env \<Rightarrow> db \<Rightarrow> request \<Rightarrow> MessageForm \<Rightarrow> outcome" where
  "new_message e st req form = login_required st req (\<lambda>cu.
     if validate_on_submit req (MessageForm_validate form) then
       (case find (\<lambda>u. Some (user_username u) = msg_receiver form) (users st) of
          None \<Rightarrow> (Redirect ''new_message'', [(''Receiver not found.'', ''danger'')], st)
        | Some receiver \<Rightarrow>
            let msg = \<lparr>message_id = next_id (map message_id (messages st)),
                       message_sender_id = Some (user_id cu),
                       message_receiver_id = Some (user_id receiver),
                       message_subject = msg_subject form,
                       message_body = msg_body form,
                       message_created_at = Some (utcnow e)\<rparr>
            in (Redirect ''dashboard'', [(''Message sent.'', ''success'')],
                st\<lparr>messages := messages st @ [msg]\<rparr>))
     else (RenderTemplate ''new_message.html'', [], st))"
















section \<open>The user API\<close>



section \<open>The specification's words\<close>









text \<open>Reading a JSON object.\<close>

definition json_get :: "json \<Rightarrow> string \<Rightarrow> json option" where
  "json_get j k = (case j of JObj kvs \<Rightarrow> map_of kvs k | _ \<Rightarrow> None)"


section \<open>An example state\<close>

text \<open>
  A small state in the manner of \<^verbatim>\<open>seed_data\<close>, and an environment to run the handlers in.
  The hash and the e-mail check of the example environment are stand-ins; no property
  below depends on them.
\<close>

definition demo_env :: env where
  "demo_env = \<lparr>utcnow = (2025, 3, 1, 9, 30, 0, 0),
               bcrypt_hash = (\<lambda>p. ''$2b$'' @ rev p),
               bcrypt_verify = (\<lambda>p h. h = ''$2b$'' @ rev p),
               email_validator = (\<lambda>s. CHR ''@'' \<in> set s)\<rparr>"

definition farmer1 :: user where
  "farmer1 = \<lparr>user_id = 1, user_username = ''farmer1'', user_email = ''farmer1@example.com'',
              user_password_hash = ''$2b$ssapremraf'', user_role = ''farmer'',
              user_created_at = Some (2025, 1, 1, 8, 0, 0, 0)\<rparr>"

definition consumer1 :: user where
  "consumer1 = \<lparr>user_id = 2, user_username = ''consumer1'', user_email = ''consumer1@example.com'',
                user_password_hash = ''$2b$ssapremusnoc'', user_role = ''consumer'',
                user_created_at = Some (2025, 1, 1, 8, 0, 0, 0)\<rparr>"

definition farmer1_profile :: profile where
  "farmer1_profile = \<lparr>profile_id = 1, profile_user_id = Some 1,
                      profile_full_name = Some ''Farmer1'', profile_phone = Some ''N/A'',
                      profile_location = Some ''Rajasthan'', profile_bio = Some ''Role: farmer''\<rparr>"

definition milk_listing :: listing where
  "milk_listing = \<lparr>listing_id = 1, listing_title = ''Raw camel milk'',
                   listing_description = Some ''From free-range camels.'',
                   listing_owner_id = Some 1, listing_category = Some ''milk'',
                   listing_price = Some (3 / 2), listing_quantity = Some ''50 L/week'',
                   listing_location = Some ''Bikaner'',
                   listing_created_at = Some (2025, 1, 2, 8, 0, 0, 0)\<rparr>"

definition transport_listing :: listing where
  "transport_listing = \<lparr>listing_id = 2, listing_title = ''Transport service'',
                        listing_description = Some ''Cold chain for MILK.'',
                        listing_owner_id = Some 1, listing_category = Some ''transport'',
                        listing_price = Some (1 / 2), listing_quantity = Some ''per km'',
                        listing_location = Some ''Rajasthan'',
                        listing_created_at = Some (2025, 1, 3, 8, 0, 0, 0)\<rparr>"

definition abc_listing :: listing where
  "abc_listing = \<lparr>listing_id = 3, listing_title = ''abc'',
                  listing_description = Some ''Vet visit'',
                  listing_owner_id = Some 2, listing_category = Some ''vet'',
                  listing_price = None, listing_quantity = None,
                  listing_location = None,
                  listing_created_at = Some (2025, 1, 1, 12, 0, 0, 0)\<rparr>"

definition workshop :: event where
  "workshop = \<lparr>event_id = 1, event_title = Some ''Workshop'',
               event_description = Some ''Camel nutrition.'',
               event_date = Some (2025, 6, 1, 0, 0, 0, 0), event_organizer_id = Some 1,
               event_created_at = Some (2025, 1, 1, 8, 0, 0, 0)\<rparr>"

definition fair :: event where
  "fair = \<lparr>event_id = 2, event_title = Some ''Fair'',
           event_description = Some ''Milk producers fair.'',
           event_date = Some (2025, 4, 12, 0, 0, 0, 0), event_organizer_id = Some 2,
           event_created_at = Some (2025, 1, 5, 8, 0, 0, 0)\<rparr>"

definition demo_db :: db where
  "demo_db = \<lparr>users = [farmer1, consumer1], profiles = [farmer1_profile],
              listings = [milk_listing, transport_listing, abc_listing],
              messages = [], events = [workshop, fair]\<rparr>"

definition logged_in_post :: request where
  "logged_in_post = \<lparr>req_method = POST, req_csrf_ok = True, req_session_user_id = Some 2\<rparr>"

definition anonymous_post :: request where
  "anonymous_post = \<lparr>req_method = POST, req_csrf_ok = True, req_session_user_id = None\<rparr>"

text \<open>Submissions to try the handlers on.\<close>

definition alice_form :: RegisterForm where
  "alice_form = \<lparr>reg_username = Some ''alice'', reg_email = Some ''alice@x.com'',
                 reg_password = Some ''pw123456'', reg_role = Some ''farmer''\<rparr>"

definition taken_name_form :: RegisterForm where
  "taken_name_form = \<lparr>reg_username = Some ''farmer1'', reg_email = Some ''new@x.com'',
                      reg_password = Some ''pw123456'', reg_role = Some ''farmer''\<rparr>"

definition short_password_form :: RegisterForm where
  "short_password_form = \<lparr>reg_username = Some ''farmer1'', reg_email = Some ''new@x.com'',
                          reg_password = Some ''abc'', reg_role = Some ''farmer''\<rparr>"

definition fresh_milk_form :: ListingForm where
  "fresh_milk_form = \<lparr>lst_title = Some ''Fresh milk'', lst_description = Some ''Fresh camel milk'',
                      lst_category = Some ''milk'', lst_price = FloatValue 2,
                      lst_quantity = Some ''10 L'', lst_location = Some ''Jaisalmer''\<rparr>"

definition hello_form :: MessageForm where
  "hello_form = \<lparr>msg_receiver = Some ''farmer1'', msg_subject = Some ''Milk'',
                 msg_body = Some ''20 L per week?''\<rparr>"


section \<open>Facts about the example state\<close>

lemma demo_db_sel:
  "users demo_db = [farmer1, consumer1]" "profiles demo_db = [farmer1_profile]"
  "listings demo_db = [milk_listing, transport_listing, abc_listing]"
  "messages demo_db = []" "events demo_db = [workshop, fair]"
  by (simp_all add: demo_db_def)

lemma demo_listing_sel:
  "listing_title milk_listing = ''Raw camel milk''"
  "listing_title transport_listing = ''Transport service''"
  "listing_title abc_listing = ''abc''"
  "listing_description milk_listing = Some ''From free-range camels.''"
  "listing_description transport_listing = Some ''Cold chain for MILK.''"
  "listing_description abc_listing = Some ''Vet visit''"
  "listing_category milk_listing = Some ''milk''"
  "listing_category transport_listing = Some ''transport''"
  "listing_category abc_listing = Some ''vet''"
  "listing_owner_id milk_listing = Some 1"
  "listing_owner_id transport_listing = Some 1"
  "listing_owner_id abc_listing = Some 2"
  "listing_id milk_listing = 1" "listing_id transport_listing = 2" "listing_id abc_listing = 3"
  by (simp_all add: milk_listing_def transport_listing_def abc_listing_def)

lemma demo_user_sel:
  "user_id farmer1 = 1" "user_id consumer1 = 2"
  "user_username farmer1 = ''farmer1''" "user_username consumer1 = ''consumer1''"
  "user_email farmer1 = ''farmer1@example.com''"
  "user_email consumer1 = ''consumer1@example.com''"
  by (simp_all add: farmer1_def consumer1_def)

lemma demo_event_sel:
  "event_id workshop = 1" "event_id fair = 2"
  by (simp_all add: workshop_def fair_def)


lemma demo_env_sel:
  "utcnow demo_env = (2025, 3, 1, 9, 30, 0, 0)"
  "bcrypt_hash demo_env p = ''$2b$'' @ rev p"
  "email_validator demo_env s = (CHR ''@'' \<in> set s)"
  by (simp_all add: demo_env_def)

lemma demo_request_sel:
  "req_method logged_in_post = POST" "req_csrf_ok logged_in_post"
  "req_session_user_id logged_in_post = Some 2"
  "req_method anonymous_post = POST" "req_csrf_ok anonymous_post"
  "req_session_user_id anonymous_post = None"
  by (simp_all add: logged_in_post_def anonymous_post_def)

lemma demo_order:
  "\<not> listing_created_at transport_listing \<le> listing_created_at abc_listing"
  "\<not> listing_created_at milk_listing \<le> listing_created_at abc_listing"
  "listing_created_at milk_listing \<le> listing_created_at transport_listing"
  "\<not> event_date workshop \<le> event_date fair"
  by (simp_all add: milk_listing_def transport_listing_def abc_listing_def workshop_def fair_def)

lemma demo_listing_owner:
  "listing_owner demo_db milk_listing = Some farmer1"
  "listing_owner demo_db transport_listing = Some farmer1"
  "listing_owner demo_db abc_listing = Some consumer1"
  by (simp_all add: listing_owner_def demo_db_sel demo_listing_sel demo_user_sel)

section \<open>Order and size of what browsing returns\<close>

lemma order_by_desc_sorted:
  "sorted_wrt (\<lambda>a b. b \<le> a) (map f (limit n (order_by_desc f xs)))"
proof -
  have "sorted (map f (sort_key f xs))" by (rule sorted_sort_key)
  then have "sorted_wrt (\<lambda>a b. b \<le> a) (rev (map f (sort_key f xs)))"
    by (simp add: sorted_wrt_rev)
  then have "sorted_wrt (\<lambda>a b. b \<le> a) (map f (order_by_desc f xs))"
    by (simp add: order_by_desc_def rev_map)
  then show ?thesis
    by (simp add: limit_def take_map [symmetric] sorted_wrt_take del: take_map)
qed

lemma order_by_asc_sorted: "sorted (map f (limit n (order_by_asc f xs)))"
proof -
  have "sorted (map f (sort_key f xs))" by (rule sorted_sort_key)
  then show ?thesis
    by (simp add: limit_def order_by_asc_def take_map [symmetric] sorted_wrt_take del: take_map)
qed

lemma limit_length: "length (limit n xs) \<le> n"
  by (simp add: limit_def)

lemma append_results_shape:
  "append_results st ls acc = Some rs \<Longrightarrow>
     \<exists>js. rs = acc @ js \<and>
       list_all2 (\<lambda>l j. \<exists>ow. listing_owner st l = Some ow \<and> j = listing_dict l ow) ls js"
proof (induction ls arbitrary: acc)
  case Nil
  then show ?case by simp
next
  case (Cons l ls)
  from Cons.prems obtain ow where ow: "listing_owner st l = Some ow"
    and rest: "append_results st ls (acc @ [listing_dict l ow]) = Some rs"
    by (auto split: option.splits)
  from Cons.IH [OF rest] obtain js where
    "rs = (acc @ [listing_dict l ow]) @ js"
    "list_all2 (\<lambda>l j. \<exists>ow. listing_owner st l = Some ow \<and> j = listing_dict l ow) ls js"
    by blast
  with ow show ?case
    by (intro exI [of _ "listing_dict l ow # js"]) simp
qed

lemma api_listings_shape:
  "api_listings st args = ServerError \<or>
   (\<exists>results. api_listings st args = Jsonify (JArr results) \<and>
      list_all2 (\<lambda>l j. \<exists>ow. listing_owner st l = Some ow \<and> j = listing_dict l ow)
        (api_listings_query st args) results)"
proof (cases "append_results st (api_listings_query st args) []")
  case None
  then show ?thesis by (simp add: api_listings_def)
next
  case (Some rs)
  from append_results_shape [OF Some] show ?thesis
    using Some by (auto simp: api_listings_def)
qed

lemma index_shape:
  "\<exists>X. index st args =
     RenderIndex (limit 30 (order_by_desc listing_created_at X))
       (limit 10 (order_by_asc event_date (events st)))
       (args_get args ''q'' []) (args_get args ''cat'' [])"
  unfolding index_def Let_def by blast

text \<open>
  C6. In every persisted state and for every query, the listings of the browse view are in
  descending order of creation time and at most 30, its events are in ascending order of
  their date and at most 10, and the rows the API selects are in descending order of
  creation time and at most 200; the API answers with one JSON object per selected row, in
  that order (or with a server error, when a selected listing has no owner row).
\<close>

theorem browse_ordered_and_capped:
  "(\<exists>ls es q cat. index st args = RenderIndex ls es q cat \<and>
      sorted_wrt (\<lambda>a b. b \<le> a) (map listing_created_at ls) \<and> length ls \<le> 30 \<and>
      sorted (map event_date es) \<and> length es \<le> 10) \<and>
   sorted_wrt (\<lambda>a b. b \<le> a) (map listing_created_at (api_listings_query st args)) \<and>
   length (api_listings_query st args) \<le> 200 \<and>
   (api_listings st args = ServerError \<or>
    (\<exists>results. api_listings st args = Jsonify (JArr results) \<and> length results \<le> 200 \<and>
       list_all2 (\<lambda>l j. \<exists>ow. listing_owner st l = Some ow \<and> j = listing_dict l ow)
         (api_listings_query st args) results))"
proof -
  have idx: "\<exists>ls es q cat. index st args = RenderIndex ls es q cat \<and>
      sorted_wrt (\<lambda>a b. b \<le> a) (map listing_created_at ls) \<and> length ls \<le> 30 \<and>
      sorted (map event_date es) \<and> length es \<le> 10"
  proof -
    obtain X where "index st args =
        RenderIndex (limit 30 (order_by_desc listing_created_at X))
          (limit 10 (order_by_asc event_date (events st)))
          (args_get args ''q'' []) (args_get args ''cat'' [])"
      using index_shape by blast
    then show ?thesis
      using order_by_desc_sorted [of listing_created_at 30 X]
        order_by_asc_sorted [of event_date 10 "events st"]
      by (simp add: limit_length)
  qed
  have s: "sorted_wrt (\<lambda>a b. b \<le> a) (map listing_created_at (api_listings_query st args))"
    unfolding api_listings_query_def Let_def by (rule order_by_desc_sorted)
  have n: "length (api_listings_query st args) \<le> 200"
    unfolding api_listings_query_def Let_def by (rule limit_length)
  have "api_listings st args = ServerError \<or>
    (\<exists>results. api_listings st args = Jsonify (JArr results) \<and> length results \<le> 200 \<and>
       list_all2 (\<lambda>l j. \<exists>ow. listing_owner st l = Some ow \<and> j = listing_dict l ow)
         (api_listings_query st args) results)"
  proof (rule disjE [OF api_listings_shape [of st args]])
    assume "api_listings st args = ServerError"
    then show ?thesis by simp
  next
    assume "\<exists>results. api_listings st args = Jsonify (JArr results) \<and>
      list_all2 (\<lambda>l j. \<exists>ow. listing_owner st l = Some ow \<and> j = listing_dict l ow)
        (api_listings_query st args) results"
    then obtain results where r: "api_listings st args = Jsonify (JArr results)"
      and l: "list_all2 (\<lambda>l j. \<exists>ow. listing_owner st l = Some ow \<and> j = listing_dict l ow)
        (api_listings_query st args) results"
      by blast
    from l have "length results = length (api_listings_query st args)"
      by (simp add: list_all2_lengthD)
    with n r l show ?thesis by simp
  qed
  with idx s n show ?thesis by blast
qed

theorem browse_ordered_and_capped_witness:
  "index demo_db Map.empty =
     RenderIndex [transport_listing, milk_listing, abc_listing] [fair, workshop] [] [] \<and>
   api_listings demo_db Map.empty =
     Jsonify (JArr [listing_dict transport_listing farmer1, listing_dict milk_listing farmer1,
                    listing_dict abc_listing consumer1]) \<and>
   sorted_wrt (\<lambda>a b. b \<le> a)
     (map listing_created_at [transport_listing, milk_listing, abc_listing]) \<and>
   sorted (map event_date [fair, workshop])"
proof -
  have q: "api_listings_query demo_db Map.empty = [transport_listing, milk_listing, abc_listing]"
    by (simp add: api_listings_query_def args_get_def limit_def order_by_desc_def Let_def
        demo_db_sel demo_order)
  have i: "index demo_db Map.empty =
     RenderIndex [transport_listing, milk_listing, abc_listing] [fair, workshop] [] []"
    by (simp add: index_def args_get_def limit_def order_by_desc_def order_by_asc_def Let_def
        demo_db_sel demo_order)
  have a: "api_listings demo_db Map.empty =
     Jsonify (JArr [listing_dict transport_listing farmer1, listing_dict milk_listing farmer1,
                    listing_dict abc_listing consumer1])"
    by (simp add: api_listings_def q demo_listing_owner)
  from browse_ordered_and_capped [of demo_db Map.empty]
  have "sorted_wrt (\<lambda>a b. b \<le> a) (map listing_created_at (api_listings_query demo_db Map.empty))"
    and "\<exists>ls es q cat. index demo_db Map.empty = RenderIndex ls es q cat \<and>
      sorted_wrt (\<lambda>a b. b \<le> a) (map listing_created_at ls) \<and> length ls \<le> 30 \<and>
      sorted (map event_date es) \<and> length es \<le> 10"
    by blast+
  then have "sorted_wrt (\<lambda>a b. b \<le> a)
     (map listing_created_at [transport_listing, milk_listing, abc_listing])"
    and "sorted (map event_date [fair, workshop])"
    unfolding q i by blast+
  with i a show ?thesis by blast
qed

section \<open>Auxiliary facts\<close>

lemma login_required_Some:
  "current_user st req = Some cu \<Longrightarrow> login_required st req h = h cu"
  by (simp add: login_required_def)

lemma find_None_iff_all: "(find P xs = None) = (\<forall>x\<in>set xs. \<not> P x)"
  by (induction xs) auto

lemma find_Some_mem: "find P xs = Some x \<Longrightarrow> x \<in> set xs \<and> P x"
  by (induction xs) (auto split: if_splits)

lemma InputRequired_Some: "InputRequired d \<Longrightarrow> \<exists>v. d = Some v \<and> v \<noteq> []"
  by (cases d) (simp_all add: InputRequired_def)

lemma new_listing_valid:
  assumes cu: "current_user st req = Some cu"
    and ok: "validate_on_submit req (ListingForm_validate form)"
  shows "\<exists>title. lst_title form = Some title \<and>
         new_listing e st req form =
           (Redirect ''dashboard'', [(''Listing created.'', ''success'')],
            st\<lparr>listings := listings st @
              [\<lparr>listing_id = next_id (map listing_id (listings st)),
                listing_title = title,
                listing_description = lst_description form,
                listing_owner_id = Some (user_id cu),
                listing_category = lst_category form,
                listing_price = or_None (float_data (lst_price form)),
                listing_quantity = lst_quantity form,
                listing_location = lst_location form,
                listing_created_at = Some (utcnow e)\<rparr>]\<rparr>)"
proof -
  from ok have "InputRequired (lst_title form)"
    by (simp add: validate_on_submit_def ListingForm_validate_def)
  then obtain title where t: "lst_title form = Some title"
    using InputRequired_Some by blast
  show ?thesis
    using ok by (simp add: new_listing_def login_required_Some [OF cu] t Let_def)
qed

lemma new_listing_created:
  assumes cu: "current_user st req = Some cu"
    and ok: "validate_on_submit req (ListingForm_validate form)"
  shows "\<exists>l. new_listing e st req form =
           (Redirect ''dashboard'', [(''Listing created.'', ''success'')],
            st\<lparr>listings := listings st @ [l]\<rparr>) \<and>
         listing_price l = or_None (float_data (lst_price form)) \<and>
         listing_owner_id l = Some (user_id cu) \<and>
         Some (listing_title l) = lst_title form"
proof -
  from new_listing_valid [OF cu ok, of e] obtain title where
    t: "lst_title form = Some title" and
    n: "new_listing e st req form =
           (Redirect ''dashboard'', [(''Listing created.'', ''success'')],
            st\<lparr>listings := listings st @
              [\<lparr>listing_id = next_id (map listing_id (listings st)),
                listing_title = title,
                listing_description = lst_description form,
                listing_owner_id = Some (user_id cu),
                listing_category = lst_category form,
                listing_price = or_None (float_data (lst_price form)),
                listing_quantity = lst_quantity form,
                listing_location = lst_location form,
                listing_created_at = Some (utcnow e)\<rparr>]\<rparr>)"
    by blast
  show ?thesis
    unfolding n t by (rule exI, intro conjI, rule refl) simp_all
qed

section \<open>The price of a new listing\<close>

text \<open>
  C9 (as the code has it). The listing that a valid submission of an authenticated user
  creates has a price that is either absent or the non-zero float that was submitted,
  whatever its sign: the form has no range check, and only \<^verbatim>\<open>0.0\<close> and a missing value
  become \<open>None\<close>. A negative price is stored as submitted.
\<close>

theorem listing_price_stored:
  assumes cu: "current_user st req = Some cu"
    and ok: "validate_on_submit req (ListingForm_validate form)"
  shows "\<exists>l. new_listing e st req form =
           (Redirect ''dashboard'', [(''Listing created.'', ''success'')],
            st\<lparr>listings := listings st @ [l]\<rparr>) \<and>
         (listing_price l = None \<or> (\<exists>x. x \<noteq> 0 \<and> listing_price l = Some x)) \<and>
         (\<forall>x. lst_price form = FloatValue x \<and> x \<noteq> 0 \<longrightarrow> listing_price l = Some x)"
proof -
  from new_listing_created [OF cu ok, of e] obtain l where
    l: "new_listing e st req form =
           (Redirect ''dashboard'', [(''Listing created.'', ''success'')],
            st\<lparr>listings := listings st @ [l]\<rparr>)"
    and p: "listing_price l = or_None (float_data (lst_price form))"
    by blast
  have "listing_price l = None \<or> (\<exists>x. x \<noteq> 0 \<and> listing_price l = Some x)"
    unfolding p by (cases "lst_price form") (simp_all add: or_None_def)
  moreover have "\<forall>x. lst_price form = FloatValue x \<and> x \<noteq> 0 \<longrightarrow> listing_price l = Some x"
    unfolding p by (simp add: or_None_def)
  ultimately show ?thesis using l by blast
qed

text \<open>
  C10. For a valid submission whose price is exactly \<^verbatim>\<open>0.0\<close> or absent, the created listing
  has the price \<open>None\<close>; the API shows it as \<^verbatim>\<open>null\<close>, and the outcome is the one of the same
  submission without a price.
\<close>

theorem zero_price_stored_as_None:
  assumes cu: "current_user st req = Some cu"
    and ok: "validate_on_submit req (ListingForm_validate form)"
    and z: "lst_price form = FloatValue 0 \<or> lst_price form = NoInput"
  shows "\<exists>l. new_listing e st req form =
           (Redirect ''dashboard'', [(''Listing created.'', ''success'')],
            st\<lparr>listings := listings st @ [l]\<rparr>) \<and>
         listing_price l = None \<and>
         (\<forall>ow. json_get (listing_dict l ow) ''price'' = Some JNull) \<and>
         new_listing e st req (form\<lparr>lst_price := NoInput\<rparr>) = new_listing e st req form"
proof -
  from new_listing_created [OF cu ok, of e] obtain l where
    l: "new_listing e st req form =
           (Redirect ''dashboard'', [(''Listing created.'', ''success'')],
            st\<lparr>listings := listings st @ [l]\<rparr>)"
    and p: "listing_price l = or_None (float_data (lst_price form))"
    by blast
  from z have n: "or_None (float_data (lst_price form)) = None"
    by (auto simp: or_None_def)
  with p have pn: "listing_price l = None" by simp
  then have j: "\<forall>ow. json_get (listing_dict l ow) ''price'' = Some JNull"
    by (simp add: json_get_def listing_dict_def jnum_opt_def)
  from ok have "InputRequired (lst_title form)"
    by (simp add: validate_on_submit_def ListingForm_validate_def)
  then obtain title where t: "lst_title form = Some title"
    using InputRequired_Some by blast
  have same: "new_listing e st req (form\<lparr>lst_price := NoInput\<rparr>) = new_listing e st req form"
    using ok n
    by (simp add: new_listing_def login_required_Some [OF cu] t Let_def
        validate_on_submit_def ListingForm_validate_def or_None_def)
  from l pn j same show ?thesis by blast
qed

lemma demo_price_sel:
  "listing_price milk_listing = Some (3 / 2)" "listing_price transport_listing = Some (1 / 2)"
  "listing_price abc_listing = None"
  by (simp_all add: milk_listing_def transport_listing_def abc_listing_def)

lemma demo_current_user:
  "current_user demo_db logged_in_post = Some consumer1"
  "current_user demo_db anonymous_post = None"
  by (simp_all add: current_user_def load_user_def demo_db_sel demo_user_sel demo_request_sel)

lemma fresh_milk_form_sel:
  "lst_title fresh_milk_form = Some ''Fresh milk''"
  "lst_description fresh_milk_form = Some ''Fresh camel milk''"
  "lst_category fresh_milk_form = Some ''milk''"
  "lst_price fresh_milk_form = FloatValue 2"
  by (simp_all add: fresh_milk_form_def)

lemma fresh_milk_form_valid:
  "validate_on_submit logged_in_post (ListingForm_validate (fresh_milk_form\<lparr>lst_price := p\<rparr>)) = float_ok p"
  by (simp add: validate_on_submit_def ListingForm_validate_def InputRequired_def Length_def
      valid_choice_def category_choices_def fresh_milk_form_sel demo_request_sel)

theorem listing_price_stored_witness:
  "current_user demo_db logged_in_post = Some consumer1 \<and>
   validate_on_submit logged_in_post (ListingForm_validate (fresh_milk_form\<lparr>lst_price := FloatValue 2\<rparr>)) \<and>
   map listing_price (listings (snd (snd
     (new_listing demo_env demo_db logged_in_post (fresh_milk_form\<lparr>lst_price := FloatValue 2\<rparr>))))) =
   [Some (3 / 2), Some (1 / 2), None, Some 2]"
proof -
  have cu: "current_user demo_db logged_in_post = Some consumer1"
    by (rule demo_current_user)
  have ok: "validate_on_submit logged_in_post
      (ListingForm_validate (fresh_milk_form\<lparr>lst_price := FloatValue 2\<rparr>))"
    by (simp add: fresh_milk_form_valid)
  from listing_price_stored [OF cu ok, of demo_env] obtain l where
    "new_listing demo_env demo_db logged_in_post (fresh_milk_form\<lparr>lst_price := FloatValue 2\<rparr>) =
       (Redirect ''dashboard'', [(''Listing created.'', ''success'')],
        demo_db\<lparr>listings := listings demo_db @ [l]\<rparr>)"
    and "listing_price l = Some 2"
    by auto
  with cu ok show ?thesis
    by (simp add: demo_db_sel demo_price_sel)
qed

theorem negative_price_counterexample:
  "fst (new_listing demo_env demo_db logged_in_post (fresh_milk_form\<lparr>lst_price := FloatValue (- 5)\<rparr>)) =
     Redirect ''dashboard'' \<and>
   map listing_price (listings (snd (snd
     (new_listing demo_env demo_db logged_in_post (fresh_milk_form\<lparr>lst_price := FloatValue (- 5)\<rparr>))))) =
   [Some (3 / 2), Some (1 / 2), None, Some (- 5)]"
proof -
  have ok: "validate_on_submit logged_in_post
      (ListingForm_validate (fresh_milk_form\<lparr>lst_price := FloatValue (- 5)\<rparr>))"
    by (simp add: fresh_milk_form_valid)
  from new_listing_valid [OF demo_current_user(1) ok, of demo_env] show ?thesis
    by (auto simp: demo_db_sel demo_price_sel or_None_def)
qed

theorem zero_price_stored_as_None_witness:
  "current_user demo_db logged_in_post = Some consumer1 \<and>
   validate_on_submit logged_in_post (ListingForm_validate (fresh_milk_form\<lparr>lst_price := FloatValue 0\<rparr>)) \<and>
   map listing_price (listings (snd (snd
     (new_listing demo_env demo_db logged_in_post (fresh_milk_form\<lparr>lst_price := FloatValue 0\<rparr>))))) =
   [Some (3 / 2), Some (1 / 2), None, None]"
proof -
  have cu: "current_user demo_db logged_in_post = Some consumer1"
    by (rule demo_current_user)
  have ok: "validate_on_submit logged_in_post
      (ListingForm_validate (fresh_milk_form\<lparr>lst_price := FloatValue 0\<rparr>))"
    by (simp add: fresh_milk_form_valid)
  have z: "lst_price (fresh_milk_form\<lparr>lst_price := FloatValue 0\<rparr>) = FloatValue 0 \<or>
           lst_price (fresh_milk_form\<lparr>lst_price := FloatValue 0\<rparr>) = NoInput"
    by simp
  from zero_price_stored_as_None [OF cu ok z, of demo_env] obtain l where
    "new_listing demo_env demo_db logged_in_post (fresh_milk_form\<lparr>lst_price := FloatValue 0\<rparr>) =
       (Redirect ''dashboard'', [(''Listing created.'', ''success'')],
        demo_db\<lparr>listings := listings demo_db @ [l]\<rparr>)"
    and "listing_price l = None"
    by blast
  with cu ok show ?thesis
    by (simp add: demo_db_sel demo_price_sel)
qed

section \<open>What the user API returns\<close>



lemma MessageForm_valid_receiver:
  "validate_on_submit req (MessageForm_validate form) \<Longrightarrow> \<exists>r. msg_receiver form = Some r"
  using InputRequired_Some
  by (auto simp: validate_on_submit_def MessageForm_validate_def)

section \<open>Sending a message\<close>

text \<open>
  C5. For a valid message form sent by an authenticated user: when no user has the receiver
  name, the handler flashes the error, redirects back to the form and leaves the state as it
  is; when a user has it, exactly one message row is appended, with the current identity as
  sender, that user as receiver and the creation time set.
\<close>

theorem message_send:
  assumes cu: "current_user st req = Some cu"
    and ok: "validate_on_submit req (MessageForm_validate form)"
  shows "((\<forall>u\<in>set (users st). Some (user_username u) \<noteq> msg_receiver form) \<longrightarrow>
            new_message e st req form =
              (Redirect ''new_message'', [(''Receiver not found.'', ''danger'')], st)) \<and>
         ((\<exists>u\<in>set (users st). Some (user_username u) = msg_receiver form) \<longrightarrow>
            (\<exists>r msg. r \<in> set (users st) \<and> Some (user_username r) = msg_receiver form \<and>
               new_message e st req form =
                 (Redirect ''dashboard'', [(''Message sent.'', ''success'')],
                  st\<lparr>messages := messages st @ [msg]\<rparr>) \<and>
               message_sender_id msg = Some (user_id cu) \<and>
               message_receiver_id msg = Some (user_id r) \<and>
               message_created_at msg = Some (utcnow e) \<and>
               message_subject msg = msg_subject form \<and>
               message_body msg = msg_body form))"
proof (intro conjI impI)
  assume "\<forall>u\<in>set (users st). Some (user_username u) \<noteq> msg_receiver form"
  then have "find (\<lambda>u. Some (user_username u) = msg_receiver form) (users st) = None"
    by (simp add: find_None_iff_all)
  then show "new_message e st req form =
      (Redirect ''new_message'', [(''Receiver not found.'', ''danger'')], st)"
    using ok by (simp add: new_message_def login_required_Some [OF cu])
next
  assume "\<exists>u\<in>set (users st). Some (user_username u) = msg_receiver form"
  then have "find (\<lambda>u. Some (user_username u) = msg_receiver form) (users st) \<noteq> None"
    by (simp add: find_None_iff_all)
  then obtain r where f: "find (\<lambda>u. Some (user_username u) = msg_receiver form) (users st) = Some r"
    by blast
  have m: "r \<in> set (users st)" "Some (user_username r) = msg_receiver form"
    using find_Some_mem [OF f] by simp_all
  let ?msg = "\<lparr>message_id = next_id (map message_id (messages st)),
                message_sender_id = Some (user_id cu),
                message_receiver_id = Some (user_id r),
                message_subject = msg_subject form,
                message_body = msg_body form,
                message_created_at = Some (utcnow e)\<rparr>"
  have n: "new_message e st req form =
      (Redirect ''dashboard'', [(''Message sent.'', ''success'')],
       st\<lparr>messages := messages st @ [?msg]\<rparr>)"
    using ok by (simp add: new_message_def login_required_Some [OF cu] f Let_def)
  show "\<exists>r msg. r \<in> set (users st) \<and> Some (user_username r) = msg_receiver form \<and>
               new_message e st req form =
                 (Redirect ''dashboard'', [(''Message sent.'', ''success'')],
                  st\<lparr>messages := messages st @ [msg]\<rparr>) \<and>
               message_sender_id msg = Some (user_id cu) \<and>
               message_receiver_id msg = Some (user_id r) \<and>
               message_created_at msg = Some (utcnow e) \<and>
               message_subject msg = msg_subject form \<and>
               message_body msg = msg_body form"
    by (rule exI [of _ r], rule exI [of _ ?msg]) (simp add: m n)
qed

lemma hello_form_sel:
  "msg_receiver (hello_form\<lparr>msg_receiver := r\<rparr>) = r"
  "msg_subject (hello_form\<lparr>msg_receiver := r\<rparr>) = Some ''Milk''"
  "msg_body (hello_form\<lparr>msg_receiver := r\<rparr>) = Some ''20 L per week?''"
  by (simp_all add: hello_form_def)

theorem message_send_witness:
  "current_user demo_db logged_in_post = Some consumer1 \<and>
   validate_on_submit logged_in_post (MessageForm_validate (hello_form\<lparr>msg_receiver := Some ''nobody''\<rparr>)) \<and>
   validate_on_submit logged_in_post (MessageForm_validate (hello_form\<lparr>msg_receiver := Some ''farmer1''\<rparr>)) \<and>
   new_message demo_env demo_db logged_in_post (hello_form\<lparr>msg_receiver := Some ''nobody''\<rparr>) =
     (Redirect ''new_message'', [(''Receiver not found.'', ''danger'')], demo_db) \<and>
   map message_receiver_id (messages (snd (snd
     (new_message demo_env demo_db logged_in_post (hello_form\<lparr>msg_receiver := Some ''farmer1''\<rparr>))))) =
     [Some 1] \<and>
   map message_sender_id (messages (snd (snd
     (new_message demo_env demo_db logged_in_post (hello_form\<lparr>msg_receiver := Some ''farmer1''\<rparr>))))) =
     [Some 2]"
proof -
  have cu: "current_user demo_db logged_in_post = Some consumer1"
    by (rule demo_current_user)
  have ok: "validate_on_submit logged_in_post (MessageForm_validate (hello_form\<lparr>msg_receiver := Some r\<rparr>))"
    if "r \<noteq> []" for r
    using that
    by (simp add: validate_on_submit_def MessageForm_validate_def InputRequired_def Length_def
        hello_form_sel demo_request_sel)
  have ok1: "validate_on_submit logged_in_post (MessageForm_validate (hello_form\<lparr>msg_receiver := Some ''nobody''\<rparr>))"
    by (rule ok) simp
  have ok2: "validate_on_submit logged_in_post (MessageForm_validate (hello_form\<lparr>msg_receiver := Some ''farmer1''\<rparr>))"
    by (rule ok) simp
  have none: "\<forall>u\<in>set (users demo_db).
      Some (user_username u) \<noteq> msg_receiver (hello_form\<lparr>msg_receiver := Some ''nobody''\<rparr>)"
    by (simp add: demo_db_sel demo_user_sel hello_form_sel)
  have some: "\<exists>u\<in>set (users demo_db).
      Some (user_username u) = msg_receiver (hello_form\<lparr>msg_receiver := Some ''farmer1''\<rparr>)"
    by (simp add: demo_db_sel demo_user_sel hello_form_sel)
  have a: "new_message demo_env demo_db logged_in_post (hello_form\<lparr>msg_receiver := Some ''nobody''\<rparr>) =
     (Redirect ''new_message'', [(''Receiver not found.'', ''danger'')], demo_db)"
    using message_send [OF cu ok1, of demo_env] none by blast
  from message_send [OF cu ok2, of demo_env] some obtain r msg where
    r: "r \<in> set (users demo_db)"
      "Some (user_username r) = msg_receiver (hello_form\<lparr>msg_receiver := Some ''farmer1''\<rparr>)"
    and n: "new_message demo_env demo_db logged_in_post (hello_form\<lparr>msg_receiver := Some ''farmer1''\<rparr>) =
       (Redirect ''dashboard'', [(''Message sent.'', ''success'')],
        demo_db\<lparr>messages := messages demo_db @ [msg]\<rparr>)"
    and s: "message_sender_id msg = Some (user_id consumer1)"
      "message_receiver_id msg = Some (user_id r)"
    by blast
  from r have "r = farmer1"
    by (auto simp: demo_db_sel demo_user_sel hello_form_sel)
  with s n have
    "map message_receiver_id (messages (snd (snd
      (new_message demo_env demo_db logged_in_post (hello_form\<lparr>msg_receiver := Some ''farmer1''\<rparr>))))) =
     [Some 1]"
    "map message_sender_id (messages (snd (snd
      (new_message demo_env demo_db logged_in_post (hello_form\<lparr>msg_receiver := Some ''farmer1''\<rparr>))))) =
     [Some 2]"
    by (simp_all add: demo_db_sel demo_user_sel)
  with cu ok1 ok2 a show ?thesis by blast
qed



lemma RegisterForm_valid_fields:
  assumes "validate_on_submit req (RegisterForm_validate e form)"
  shows "\<exists>username email password role.
           reg_username form = Some username \<and> reg_email form = Some email \<and>
           reg_password form = Some password \<and> reg_role form = Some role"
proof -
  from assms have "InputRequired (reg_username form)" "InputRequired (reg_email form)"
    "InputRequired (reg_password form)" "valid_choice role_choices (reg_role form)"
    by (simp_all add: validate_on_submit_def RegisterForm_validate_def)
  then show ?thesis
    by (cases "reg_username form"; cases "reg_email form"; cases "reg_password form";
        cases "reg_role form") (simp_all add: InputRequired_def valid_choice_def)
qed

section \<open>Outcomes of registration\<close>


text \<open>
  C3 (as the code has it). When the submitted username or e-mail belongs to an existing
  user, a registration that passes form validation is answered with the conflict message
  and a redirect back to the form; and, valid or not, it leaves the persisted state
  unchanged. (A submission that fails validation is answered with the form and its field
  errors, not with the conflict.)
\<close>

theorem register_conflict:
  assumes f: "reg_username form = Some username" "reg_email form = Some email"
    and taken: "\<exists>u\<in>set (users st). user_username u = username \<or> user_email u = email"
  shows "(validate_on_submit req (RegisterForm_validate e form) \<longrightarrow>
            register e st req form =
              (Redirect ''register'', [(''Username or email already exists'', ''danger'')], st)) \<and>
         snd (snd (register e st req form)) = st"
proof -
  from taken have nf: "find (\<lambda>u. user_username u = username \<or> user_email u = email) (users st) \<noteq> None"
    by (simp add: find_None_iff_all)
  have v: "register e st req form =
              (Redirect ''register'', [(''Username or email already exists'', ''danger'')], st)"
    if ok: "validate_on_submit req (RegisterForm_validate e form)"
  proof -
    from RegisterForm_valid_fields [OF ok] f obtain password role where
      "reg_password form = Some password" "reg_role form = Some role"
      by auto
    with ok nf show ?thesis
      by (simp add: register_def f)
  qed
  have "snd (snd (register e st req form)) = st"
  proof (cases "validate_on_submit req (RegisterForm_validate e form)")
    case True
    then show ?thesis by (simp add: v)
  next
    case False
    then show ?thesis by (simp add: register_def)
  qed
  with v show ?thesis by blast
qed

lemma register_form_sel:
  "reg_username alice_form = Some ''alice''" "reg_email alice_form = Some ''alice@x.com''"
  "reg_password alice_form = Some ''pw123456''" "reg_role alice_form = Some ''farmer''"
  "reg_username taken_name_form = Some ''farmer1''" "reg_email taken_name_form = Some ''new@x.com''"
  "reg_password taken_name_form = Some ''pw123456''" "reg_role taken_name_form = Some ''farmer''"
  "reg_username short_password_form = Some ''farmer1''"
  "reg_email short_password_form = Some ''new@x.com''"
  "reg_password short_password_form = Some ''abc''" "reg_role short_password_form = Some ''farmer''"
  by (simp_all add: alice_form_def taken_name_form_def short_password_form_def)

lemma demo_register_valid:
  "validate_on_submit anonymous_post (RegisterForm_validate demo_env alice_form)"
  "validate_on_submit anonymous_post (RegisterForm_validate demo_env taken_name_form)"
  "\<not> validate_on_submit anonymous_post (RegisterForm_validate demo_env short_password_form)"
  by (simp_all add: validate_on_submit_def RegisterForm_validate_def InputRequired_def Length_def
      Email_def valid_choice_def role_choices_def register_form_sel demo_request_sel demo_env_sel)


theorem register_conflict_witness:
  "validate_on_submit anonymous_post (RegisterForm_validate demo_env taken_name_form) \<and>
   (\<exists>u\<in>set (users demo_db). user_username u = ''farmer1'' \<or> user_email u = ''new@x.com'') \<and>
   register demo_env demo_db anonymous_post taken_name_form =
     (Redirect ''register'', [(''Username or email already exists'', ''danger'')], demo_db)"
proof -
  have t: "\<exists>u\<in>set (users demo_db). user_username u = ''farmer1'' \<or> user_email u = ''new@x.com''"
    by (simp add: demo_db_sel demo_user_sel)
  from register_conflict [OF register_form_sel(5,6) t, of anonymous_post demo_env]
    demo_register_valid(2) t
  show ?thesis by blast
qed

theorem register_conflict_counterexample:
  "req_method anonymous_post = POST \<and>
   reg_username short_password_form = Some ''farmer1'' \<and>
   farmer1 \<in> set (users demo_db) \<and> user_username farmer1 = ''farmer1'' \<and>
   register demo_env demo_db anonymous_post short_password_form =
     (RenderTemplate ''register.html'', [], demo_db) \<and>
   register demo_env demo_db anonymous_post short_password_form \<noteq>
     (Redirect ''register'', [(''Username or email already exists'', ''danger'')], demo_db)"
  using demo_register_valid(3)
  by (simp add: register_def register_form_sel demo_request_sel demo_db_sel demo_user_sel)

section \<open>Parsing the date of an event\<close>
























section \<open>Filtering listings\<close>





















end
